theory Spec2Isabelle
  imports Complex_Main "HOL-Library.Word"
begin

section \<open>The DTW example application (example\_dtw/src/ofApp.cpp)\<close>

text \<open>
  The application is one object, \<^verbatim>\<open>ofApp\<close>, whose methods the GUI framework calls:
  \<^verbatim>\<open>setup\<close> once, \<^verbatim>\<open>update\<close> once per frame and \<^verbatim>\<open>keyPressed\<close> on every key.
  Each method is modelled as a function from the object's fields before the call to its
  fields after it. The methods are named \<open>ofApp_setup\<close>, \<open>ofApp_update\<close> and
  \<open>ofApp_keyPressed\<close>, after \<^verbatim>\<open>ofApp::setup\<close>, \<^verbatim>\<open>ofApp::update\<close> and
  \<^verbatim>\<open>ofApp::keyPressed\<close>.

  Fields that only feed the renderer (\<^verbatim>\<open>font\<close>, \<^verbatim>\<open>shader\<close>, \<^verbatim>\<open>trainingDataPlot\<close>,
  \<^verbatim>\<open>predictedClassPlot\<close>, \<^verbatim>\<open>classLikelihoodsPlot\<close>, \<^verbatim>\<open>distanceMatrixPlots\<close>) are written
  by these methods and read by \<^verbatim>\<open>draw\<close> alone; no value flows back from them into the fields
  modelled here, so they and \<^verbatim>\<open>draw\<close> are left out.
\<close>

subsection \<open>Data\<close>

text \<open>
  \<^verbatim>\<open>UINT\<close> is \<^verbatim>\<open>unsigned int\<close> (the source prints the label with
  \<^verbatim>\<open>grt_to_str<unsigned int>\<close>): 32 bits, arithmetic modulo \<open>2 ^ 32\<close>, unsigned order.

  A \<^verbatim>\<open>VectorDouble\<close> is a list of reals and a \<^verbatim>\<open>MatrixDouble\<close> a list of rows. The only
  numbers the application ever stores are the integers \<^verbatim>\<open>mouseX\<close> and \<^verbatim>\<open>mouseY\<close>, whose
  conversion to \<^verbatim>\<open>double\<close> is exact, and it does no arithmetic on them.
\<close>

type_synonym UINT = "32 word"
type_synonym sample = "real list"
type_synonym timeseries = "sample list"

text \<open>
  The settings of the local \<^verbatim>\<open>DTW dtw\<close> object that \<^verbatim>\<open>setup\<close> writes before it hands the
  classifier to the pipeline. \<^verbatim>\<open>enableTrimTrainingData(true, 0.1, 90)\<close> sets three of them.
  The numbers are the values of the source's literals as \<^verbatim>\<open>double\<close>: 3 and 90 are exact,
  and \<^verbatim>\<open>0.1\<close> is the nearest double, \<open>3602879701896397 / 2 ^ 55\<close>.
\<close>

record dtw =
  useNullRejection :: bool
  nullRejectionCoeff :: rat
  trimTrainingData :: bool
  trimThreshold :: rat
  maximumTrimPercentage :: rat
  offsetTimeseriesUsingFirstSample :: bool
  constrainWarpingPath :: bool

text \<open>
  The gesture recognition toolkit (GRT) is called, not implemented, by this file. Its
  operations are a parameter of the model: a record holding one function for each library
  method the modelled code calls, over an arbitrary type \<open>'p\<close> of pipelines
  (\<^verbatim>\<open>GestureRecognitionPipeline\<close>), \<open>'d\<close> of datasets (\<^verbatim>\<open>TimeSeriesClassificationData\<close>) and
  \<open>'f\<close> of file-system contents. A method that mutates its object returns the new object;
  a method whose \<^verbatim>\<open>bool\<close> result the source tests returns it as the first component. The
  source ignores the results of \<^verbatim>\<open>setNumDimensions\<close>, \<^verbatim>\<open>addSample\<close> and \<^verbatim>\<open>predict\<close>.
  A method changes the object it is called on and nothing else: \<^verbatim>\<open>train\<close> reads the dataset
  it is given, \<^verbatim>\<open>loadDatasetFromFile\<close> reads the file system, and \<^verbatim>\<open>saveDatasetToFile\<close>
  reads the dataset and writes the file system.
\<close>

record ('p, 'd, 'f) grt =
  setNumDimensions :: "nat \<Rightarrow> 'd \<Rightarrow> 'd"
  addSample :: "UINT \<Rightarrow> timeseries \<Rightarrow> 'd \<Rightarrow> 'd"
  clearData :: "'d \<Rightarrow> 'd"
  saveDatasetToFile :: "string \<Rightarrow> 'd \<Rightarrow> 'f \<Rightarrow> bool \<times> 'f"
  loadDatasetFromFile :: "string \<Rightarrow> 'f \<Rightarrow> 'd \<Rightarrow> bool \<times> 'd"
  setClassifier :: "dtw \<Rightarrow> 'p \<Rightarrow> 'p"
  getTrained :: "'p \<Rightarrow> bool"
  predict :: "sample \<Rightarrow> 'p \<Rightarrow> 'p"
  train :: "'d \<Rightarrow> 'p \<Rightarrow> bool \<times> 'p"

text \<open>
  The fields of \<^verbatim>\<open>ofApp\<close>. The source's field \<^verbatim>\<open>record\<close> is named \<open>recording\<close> here.
  \<^verbatim>\<open>mouseX\<close> and \<^verbatim>\<open>mouseY\<close> are the \<^verbatim>\<open>int\<close> fields the framework keeps up to date;
  \<open>files\<close> is the file system that \<^verbatim>\<open>saveDatasetToFile\<close> and \<^verbatim>\<open>loadDatasetFromFile\<close> reach.
\<close>

record ('p, 'd, 'f) ofApp =
  infoText :: string
  trainingClassLabel :: UINT
  recording :: bool
  timeseries :: timeseries
  trainingData :: 'd
  pipeline :: 'p
  mouseX :: int
  mouseY :: int
  files :: 'f

subsection \<open>setup\<close>

definition configured_dtw :: dtw where
  "configured_dtw =
     \<lparr> useNullRejection = True,
       nullRejectionCoeff = 3,
       trimTrainingData = True,
       trimThreshold = 3602879701896397 / 2 ^ 55,
       maximumTrimPercentage = 90,
       offsetTimeseriesUsingFirstSample = True,
       constrainWarpingPath = True \<rparr>"

definition ofApp_setup :: "('p, 'd, 'f) grt \<Rightarrow> ('p, 'd, 'f) ofApp \<Rightarrow> ('p, 'd, 'f) ofApp" where
  "ofApp_setup G s =
     s\<lparr> infoText := '''',
        trainingClassLabel := 1,
        recording := False,
        trainingData := setNumDimensions G 2 (trainingData s),
        pipeline := setClassifier G configured_dtw (pipeline s) \<rparr>"

subsection \<open>update\<close>

definition currentSample :: "('p, 'd, 'f) ofApp \<Rightarrow> sample" where
  "currentSample s = [real_of_int (mouseX s), real_of_int (mouseY s)]"

definition ofApp_update :: "('p, 'd, 'f) grt \<Rightarrow> ('p, 'd, 'f) ofApp \<Rightarrow> ('p, 'd, 'f) ofApp" where
  "ofApp_update G s =
     (let sample = currentSample s;
          s1 = (if recording s then s\<lparr> timeseries := timeseries s @ [sample] \<rparr> else s)
      in if getTrained G (pipeline s1)
         then s1\<lparr> pipeline := predict G sample (pipeline s1) \<rparr>
         else s1)"

subsection \<open>keyPressed\<close>

text \<open>The \<^verbatim>\<open>int\<close> value of a character literal, as the \<^verbatim>\<open>switch\<close> compares it with \<^verbatim>\<open>key\<close>.\<close>

definition key :: "char \<Rightarrow> int" where
  "key c = of_char c"

definition ofApp_keyPressed ::
  "('p, 'd, 'f) grt \<Rightarrow> int \<Rightarrow> ('p, 'd, 'f) ofApp \<Rightarrow> ('p, 'd, 'f) ofApp" where
  "ofApp_keyPressed G k s0 =
     (let s = s0\<lparr> infoText := '''' \<rparr> in
      if k = key CHR ''r'' then
        (let s1 = s\<lparr> recording := \<not> recording s \<rparr> in
         if \<not> recording s1
         then s1\<lparr> trainingData := addSample G (trainingClassLabel s1) (timeseries s1) (trainingData s1),
                  timeseries := [] \<rparr>
         else s1)
      else if k = key CHR ''['' then
        (if 1 < trainingClassLabel s
         then s\<lparr> trainingClassLabel := trainingClassLabel s - 1 \<rparr>
         else s)
      else if k = key CHR '']'' then s\<lparr> trainingClassLabel := trainingClassLabel s + 1 \<rparr>
      else if k = key CHR ''1'' then s\<lparr> trainingClassLabel := 1 \<rparr>
      else if k = key CHR ''2'' then s\<lparr> trainingClassLabel := 2 \<rparr>
      else if k = key CHR ''3'' then s\<lparr> trainingClassLabel := 3 \<rparr>
      else if k = key CHR ''4'' then s\<lparr> trainingClassLabel := 4 \<rparr>
      else if k = key CHR ''5'' then s\<lparr> trainingClassLabel := 4 \<rparr>
      else if k = key CHR ''6'' then s\<lparr> trainingClassLabel := 6 \<rparr>
      else if k = key CHR ''7'' then s\<lparr> trainingClassLabel := 7 \<rparr>
      else if k = key CHR ''8'' then s\<lparr> trainingClassLabel := 8 \<rparr>
      else if k = key CHR ''9'' then s\<lparr> trainingClassLabel := 9 \<rparr>
      else if k = key CHR ''0'' then s\<lparr> trainingClassLabel := 0 \<rparr>
      else if k = key CHR ''t'' then
        (case train G (trainingData s) (pipeline s) of
           (True, p) \<Rightarrow> s\<lparr> pipeline := p, infoText := ''Pipeline Trained'' \<rparr>
         | (False, p) \<Rightarrow> s\<lparr> pipeline := p, infoText := ''WARNING: Failed to train pipeline'' \<rparr>)
      else if k = key CHR ''s'' then
        (case saveDatasetToFile G ''TrainingData.txt'' (trainingData s) (files s) of
           (True, f) \<Rightarrow> s\<lparr> files := f, infoText := ''Training data saved to file'' \<rparr>
         | (False, f) \<Rightarrow>
             s\<lparr> files := f, infoText := ''WARNING: Failed to save training data to file'' \<rparr>)
      else if k = key CHR ''l'' then
        (case loadDatasetFromFile G ''TrainingData.txt'' (files s) (trainingData s) of
           (True, d) \<Rightarrow> s\<lparr> trainingData := d, infoText := ''Training data saved to file'' \<rparr>
         | (False, d) \<Rightarrow>
             s\<lparr> trainingData := d,
                infoText := ''WARNING: Failed to load training data from file'' \<rparr>)
      else if k = key CHR ''c'' then
        s\<lparr> trainingData := clearData G (trainingData s), infoText := ''Training data cleared'' \<rparr>
      else s)"

text \<open>The digit keys of the control surface.\<close>

definition digitKeys :: "int list" where
  "digitKeys = map key ''0123456789''"

subsection \<open>Runs of the application\<close>

text \<open>
  The framework drives the object with a sequence of events: a key press, a frame (one call
  of \<^verbatim>\<open>update\<close>), or a mouse move, which stores the pointer position in \<^verbatim>\<open>mouseX\<close> and
  \<^verbatim>\<open>mouseY\<close> (the handler \<^verbatim>\<open>mouseMoved\<close> of the application itself is empty).
\<close>

datatype event = Key int | Frame | Mouse int int

fun step :: "('p, 'd, 'f) grt \<Rightarrow> ('p, 'd, 'f) ofApp \<Rightarrow> event \<Rightarrow> ('p, 'd, 'f) ofApp" where
  "step G s (Key k) = ofApp_keyPressed G k s"
| "step G s Frame = ofApp_update G s"
| "step G s (Mouse x y) = s\<lparr> mouseX := x, mouseY := y \<rparr>"

definition run :: "('p, 'd, 'f) grt \<Rightarrow> ('p, 'd, 'f) ofApp \<Rightarrow> event list \<Rightarrow> ('p, 'd, 'f) ofApp" where
  "run G s es = foldl (step G) s es"

subsection \<open>A library that logs its predictions\<close>

text \<open>
  To observe which calls of \<^verbatim>\<open>pipeline.predict\<close> the application makes, any library \<open>G\<close> is
  wrapped so that its pipeline carries the list of samples \<^verbatim>\<open>predict\<close> was called on, in
  call order. Every other operation is the one of \<open>G\<close> and leaves the log alone.
\<close>

definition logged :: "('p, 'd, 'f) grt \<Rightarrow> ('p \<times> sample list, 'd, 'f) grt" where
  "logged G =
     \<lparr> setNumDimensions = setNumDimensions G,
       addSample = addSample G,
       clearData = clearData G,
       saveDatasetToFile = saveDatasetToFile G,
       loadDatasetFromFile = loadDatasetFromFile G,
       setClassifier = (\<lambda>c (p, calls). (setClassifier G c p, calls)),
       getTrained = (\<lambda>(p, calls). getTrained G p),
       predict = (\<lambda>x (p, calls). (predict G x p, calls @ [x])),
       train = (\<lambda>d (p, calls). (fst (train G d p), (snd (train G d p), calls))) \<rparr>"

section \<open>The library, as the specification describes it\<close>

text \<open>
  The source of GRT is not part of the file under study. Where a property depends on what a
  library method does, the method is modelled from the specification of the repository
  (its sections 3, 4.1 and 7). The parts the specification leaves open are parameters of
  that model, collected in the record \<open>env\<close>:
  \<^item> \<open>fit\<close>, the computation of the trained model from a dataset (trimming, offsetting,
    the choice of a template per class and of its rejection threshold), \<open>None\<close> when it
    fails;
  \<^item> \<open>cost\<close>, the DTW alignment cost between a template's series and an input series (the
    pointwise distance and the warping window are left open);
  \<^item> \<open>readDataset\<close> and \<open>writeDataset\<close>, the file format and the file system: reading a
    named file gives a dataset or fails with an I/O or format error; writing reports
    success or failure and gives the file system afterwards.
\<close>

type_synonym example = "UINT \<times> timeseries"
type_synonym dataset = "example list"

record template =
  classLabel :: UINT
  series :: timeseries
  threshold :: real

record 'f env =
  fit :: "dtw \<Rightarrow> dataset \<Rightarrow> template list option"
  cost :: "timeseries \<Rightarrow> timeseries \<Rightarrow> real"
  readDataset :: "string \<Rightarrow> 'f \<Rightarrow> dataset option"
  writeDataset :: "string \<Rightarrow> dataset \<Rightarrow> 'f \<Rightarrow> bool \<times> 'f"

text \<open>
  Modelled from the spec: the pipeline object of GRT (\<^verbatim>\<open>GestureRecognitionPipeline\<close>), which
  is missing from the sources. It holds the classifier's settings once \<^verbatim>\<open>setClassifier\<close>
  has been called, the trained model ("the set of per-class Templates plus fitted
  null-rejection thresholds") once training has succeeded, the input buffer and the
  predicted class label.
\<close>

record pipeline_spec =
  classifier :: "dtw option"
  model :: "template list option"
  inputBuffer :: timeseries
  predictedClassLabel :: UINT

text \<open>
  Modelled from the spec: the dataset operations of \<^verbatim>\<open>TimeSeriesClassificationData\<close>, which
  are missing from the sources. A training dataset is "a collection of Training Examples"
  that "supports add, clear, and persistence to/from a file"; the order of the examples is
  kept. The specification fixes no use of the number of dimensions.
\<close>

definition spec_setNumDimensions :: "nat \<Rightarrow> dataset \<Rightarrow> dataset" where
  "spec_setNumDimensions n d = d"

definition spec_addSample :: "UINT \<Rightarrow> timeseries \<Rightarrow> dataset \<Rightarrow> dataset" where
  "spec_addSample l ts d = d @ [(l, ts)]"

definition spec_clear :: "dataset \<Rightarrow> dataset" where
  "spec_clear d = []"

text \<open>
  Modelled from the spec: \<^verbatim>\<open>saveDatasetToFile\<close> and \<^verbatim>\<open>loadDatasetFromFile\<close>, which are missing
  from the sources. "Dataset load/save fails (reported, non-fatal) on I/O or format errors;
  caller retains prior in-memory dataset on load failure."
\<close>

definition spec_saveDatasetToFile :: "'f env \<Rightarrow> string \<Rightarrow> dataset \<Rightarrow> 'f \<Rightarrow> bool \<times> 'f" where
  "spec_saveDatasetToFile E name d f = writeDataset E name d f"

definition spec_loadDatasetFromFile :: "'f env \<Rightarrow> string \<Rightarrow> 'f \<Rightarrow> dataset \<Rightarrow> bool \<times> dataset" where
  "spec_loadDatasetFromFile E name f d =
     (case readDataset E name f of
        None \<Rightarrow> (False, d)
      | Some d' \<Rightarrow> (True, d'))"

text \<open>
  Modelled from the spec: \<^verbatim>\<open>setClassifier\<close>, \<^verbatim>\<open>getTrained\<close> and \<^verbatim>\<open>train\<close> of the pipeline,
  which are missing from the sources. Training "fails if a class has too few examples, or if
  no examples are provided at all"; it "fails (reported, non-fatal) when the dataset is empty
  or malformed" and then leaves "the previous trained state (if any) untouched"; a trained
  model is "replaced wholesale by retraining".
\<close>

definition spec_setClassifier :: "dtw \<Rightarrow> pipeline_spec \<Rightarrow> pipeline_spec" where
  "spec_setClassifier c p = p\<lparr> classifier := Some c \<rparr>"

definition spec_getTrained :: "pipeline_spec \<Rightarrow> bool" where
  "spec_getTrained p = (model p \<noteq> None)"

definition spec_train :: "'f env \<Rightarrow> dataset \<Rightarrow> pipeline_spec \<Rightarrow> bool \<times> pipeline_spec" where
  "spec_train E d p =
     (if d = [] then (False, p)
      else case classifier p of
        None \<Rightarrow> (False, p)
      | Some cfg \<Rightarrow>
          (case fit E cfg d of
             None \<Rightarrow> (False, p)
           | Some m \<Rightarrow> (True, p\<lparr> model := Some m \<rparr>)))"

text \<open>
  Modelled from the spec: the prediction protocol of the DTW classifier, which is missing
  from the sources. "For each class template, compute the DTW alignment cost between the
  buffered input and the template"; "pick the class with minimum cost"; "if null-rejection
  is enabled and the best cost exceeds that class's threshold, report the null class
  (label 0) instead". Among templates of equal cost the first one is picked. A sample is
  "appended to a rolling input buffer"; the specification gives the buffer no capacity, so
  the model keeps every sample.
\<close>

definition nearest :: "('a \<Rightarrow> real) \<Rightarrow> 'a \<Rightarrow> 'a list \<Rightarrow> 'a" where
  "nearest c t ts = foldl (\<lambda>b x. if c x < c b then x else b) t ts"

definition classify :: "'f env \<Rightarrow> dtw \<Rightarrow> template list \<Rightarrow> timeseries \<Rightarrow> UINT option" where
  "classify E cfg ts input =
     (case ts of
        [] \<Rightarrow> None
      | t # rest \<Rightarrow>
          (let best = nearest (\<lambda>u. cost E (series u) input) t rest in
           Some (if useNullRejection cfg \<and> threshold best < cost E (series best) input
                 then 0
                 else classLabel best)))"

definition spec_predict :: "'f env \<Rightarrow> sample \<Rightarrow> pipeline_spec \<Rightarrow> pipeline_spec" where
  "spec_predict E x p =
     (case classifier p of
        None \<Rightarrow> p
      | Some cfg \<Rightarrow>
          (case model p of
             None \<Rightarrow> p
           | Some ts \<Rightarrow>
               (case classify E cfg ts (inputBuffer p @ [x]) of
                  None \<Rightarrow> p
                | Some l \<Rightarrow> p\<lparr> inputBuffer := inputBuffer p @ [x], predictedClassLabel := l \<rparr>)))"

definition grt_spec :: "'f env \<Rightarrow> (pipeline_spec, dataset, 'f) grt" where
  "grt_spec E =
     \<lparr> setNumDimensions = spec_setNumDimensions,
       addSample = spec_addSample,
       clearData = spec_clear,
       saveDatasetToFile = spec_saveDatasetToFile E,
       loadDatasetFromFile = spec_loadDatasetFromFile E,
       setClassifier = spec_setClassifier,
       getTrained = spec_getTrained,
       predict = spec_predict E,
       train = spec_train E \<rparr>"

subsection \<open>The file system and the persisted format\<close>

text \<open>
  Modelled from the spec: the file system and the persisted dataset format behind
  \<^verbatim>\<open>saveDatasetToFile\<close> and \<^verbatim>\<open>loadDatasetFromFile\<close>, which are missing from the sources.
  The format is "a delimited text file encoding, for each training example, the class label
  and its full timeseries of samples" that "must round-trip through save/load without loss
  of label or sample ordering/precision". The text itself is not described, so a well-formed
  file is identified with the dataset it encodes, and any other content is \<open>Malformed\<close>.
  A disk holds named files, the most recently written first, and may refuse every write.
  Reading fails with an I/O error when no file has the name and with a format error when
  the file is malformed; writing fails with an I/O error on a read-only disk and leaves
  it as it is.
\<close>

datatype fileContent = Malformed | Encoded dataset

record disk =
  fileAt :: "(string \<times> fileContent) list"
  readOnly :: bool

definition spec_readDataset :: "string \<Rightarrow> disk \<Rightarrow> dataset option" where
  "spec_readDataset name f =
     (case map_of (fileAt f) name of
        None \<Rightarrow> None
      | Some Malformed \<Rightarrow> None
      | Some (Encoded d) \<Rightarrow> Some d)"

definition spec_writeDataset :: "string \<Rightarrow> dataset \<Rightarrow> disk \<Rightarrow> bool \<times> disk" where
  "spec_writeDataset name d f =
     (if readOnly f then (False, f)
      else (True, f\<lparr> fileAt := (name, Encoded d) # fileAt f \<rparr>))"

text \<open>An environment whose files are on such a disk.\<close>

definition on_disk :: "disk env \<Rightarrow> disk env" where
  "on_disk E = E\<lparr> readDataset := spec_readDataset, writeDataset := spec_writeDataset \<rparr>"

subsection \<open>Concrete inputs\<close>

text \<open>
  An environment with no file system to speak of (every read and every write fails) and a
  fitting that always fails, a cost that compares lengths, two templates, and a state of
  the application in the middle of a recording, with a model trained earlier and the
  dataset cleared since.
\<close>

definition offline :: "unit env" where
  "offline =
     \<lparr> fit = (\<lambda>cfg d. None),
       cost = (\<lambda>a b. \<bar>real (length a) - real (length b)\<bar>),
       readDataset = (\<lambda>name f. None),
       writeDataset = (\<lambda>name d f. (False, f)) \<rparr>"

definition line_template :: template where
  "line_template = \<lparr> classLabel = 1, series = [[0, 0], [1, 0]], threshold = 1 \<rparr>"

definition hook_template :: template where
  "hook_template = \<lparr> classLabel = 2, series = [[0, 0], [1, 0], [1, 1]], threshold = 1 / 2 \<rparr>"

definition trained_pipeline :: pipeline_spec where
  "trained_pipeline =
     \<lparr> classifier = Some configured_dtw,
       model = Some [line_template, hook_template],
       inputBuffer = [],
       predictedClassLabel = 0 \<rparr>"

definition recording_app :: "(pipeline_spec, dataset, unit) ofApp" where
  "recording_app =
     \<lparr> infoText = '''',
       trainingClassLabel = 1,
       recording = True,
       timeseries = [[3, 4], [5, 6]],
       trainingData = [],
       pipeline = trained_pipeline,
       mouseX = 7,
       mouseY = 8,
       files = () \<rparr>"

text \<open>
  An environment on a disk; a disk that holds an older dataset under the name the
  application uses; a read-only disk whose file of that name is malformed; and a state of
  the application with two recorded examples in memory.
\<close>

definition disk_env :: "disk env" where
  "disk_env =
     on_disk
       \<lparr> fit = (\<lambda>cfg d. None),
         cost = (\<lambda>a b. \<bar>real (length a) - real (length b)\<bar>),
         readDataset = (\<lambda>name f. None),
         writeDataset = (\<lambda>name d f. (False, f)) \<rparr>"

definition stale_disk :: disk where
  "stale_disk =
     \<lparr> fileAt = [(''TrainingData.txt'', Encoded [(1, [[0, 0]])])], readOnly = False \<rparr>"

definition broken_disk :: disk where
  "broken_disk = \<lparr> fileAt = [(''TrainingData.txt'', Malformed)], readOnly = True \<rparr>"

definition loaded_app :: "(pipeline_spec, dataset, disk) ofApp" where
  "loaded_app =
     \<lparr> infoText = '''',
       trainingClassLabel = 2,
       recording = False,
       timeseries = [],
       trainingData = [(2, [[9, 9], [8, 7]]), (1, [[3, 4], [5, 6]])],
       pipeline = trained_pipeline,
       mouseX = 0,
       mouseY = 0,
       files = stale_disk \<rparr>"

section \<open>Properties of the application code\<close>

lemma key_values:
  "key CHR ''r'' = 114" "key CHR ''['' = 91" "key CHR '']'' = 93"
  "key CHR ''0'' = 48" "key CHR ''1'' = 49" "key CHR ''2'' = 50" "key CHR ''3'' = 51"
  "key CHR ''4'' = 52" "key CHR ''5'' = 53" "key CHR ''6'' = 54" "key CHR ''7'' = 55"
  "key CHR ''8'' = 56" "key CHR ''9'' = 57"
  "key CHR ''t'' = 116" "key CHR ''s'' = 115" "key CHR ''l'' = 108" "key CHR ''c'' = 99"
  by (simp_all add: key_def)

text \<open>
  C6. On every call of \<^verbatim>\<open>update\<close> the current mouse sample \<open>[x, y]\<close> is appended to the
  end of the timeseries buffer exactly when \<^verbatim>\<open>record\<close> is true; when it is false the buffer
  is left as it was. This holds whatever the library does.
\<close>

theorem update_appends_iff_recording:
  "timeseries (ofApp_update G s) =
     (if recording s
      then timeseries s @ [[real_of_int (mouseX s), real_of_int (mouseY s)]]
      else timeseries s)"
  by (simp add: ofApp_update_def currentSample_def Let_def)

text \<open>
  C7. The keys \<^verbatim>\<open>'4'\<close> and \<^verbatim>\<open>'5'\<close> are different digit keys, and pressing either sets
  \<^verbatim>\<open>trainingClassLabel\<close> to 4; so the map from digit keys to labels is not injective.
\<close>

theorem digit_keys_not_injective:
  "key CHR ''4'' \<noteq> key CHR ''5''
   \<and> key CHR ''4'' \<in> set digitKeys
   \<and> key CHR ''5'' \<in> set digitKeys
   \<and> trainingClassLabel (ofApp_keyPressed G (key CHR ''4'') s) = 4
   \<and> trainingClassLabel (ofApp_keyPressed G (key CHR ''5'') s) = 4
   \<and> \<not> inj_on (\<lambda>k. trainingClassLabel (ofApp_keyPressed G k s)) (set digitKeys)"
proof -
  have ne: "key CHR ''4'' \<noteq> key CHR ''5''"
    by (simp add: key_values)
  have m4: "key CHR ''4'' \<in> set digitKeys" and m5: "key CHR ''5'' \<in> set digitKeys"
    by (simp_all add: digitKeys_def)
  have l4: "trainingClassLabel (ofApp_keyPressed G (key CHR ''4'') s) = 4"
    by (simp add: ofApp_keyPressed_def key_values)
  have l5: "trainingClassLabel (ofApp_keyPressed G (key CHR ''5'') s) = 4"
    by (simp add: ofApp_keyPressed_def key_values)
  have "\<not> inj_on (\<lambda>k. trainingClassLabel (ofApp_keyPressed G k s)) (set digitKeys)"
  proof
    assume "inj_on (\<lambda>k. trainingClassLabel (ofApp_keyPressed G k s)) (set digitKeys)"
    from inj_onD [OF this _ m4 m5] l4 l5 have "key CHR ''4'' = key CHR ''5''"
      by simp
    with ne show False ..
  qed
  with ne m4 m5 l4 l5 show ?thesis
    by blast
qed

text \<open>
  C2. \<^verbatim>\<open>update\<close> runs the prediction behind the trained-state check: the pipeline after a
  frame is the result of one call of \<^verbatim>\<open>predict\<close> on the current mouse sample when
  \<^verbatim>\<open>getTrained\<close> holds, and is the pipeline as it was when it does not. With the logging
  library, the list of calls of \<^verbatim>\<open>predict\<close> grows by exactly the current sample in the
  first case and stays as it was in the second. Both hold in every state, reachable or not,
  and for every library.
\<close>

theorem update_predicts_iff_trained:
  "pipeline (ofApp_update G s) =
     (if getTrained G (pipeline s) then predict G (currentSample s) (pipeline s)
      else pipeline s)
   \<and> snd (pipeline (ofApp_update (logged G) t)) =
     (if getTrained G (fst (pipeline t)) then snd (pipeline t) @ [currentSample t]
      else snd (pipeline t))"
  by (simp add: ofApp_update_def logged_def currentSample_def Let_def split: prod.split)

text \<open>
  Pressing \<^verbatim>\<open>'['\<close> does not always take one off the label: in a state whose label is 1 the
  label is still 1 afterwards, not 0.
\<close>

theorem bracket_decrement_counterexample:
  "trainingClassLabel (ofApp_keyPressed (grt_spec offline) (key CHR ''['') recording_app)
     \<noteq> trainingClassLabel recording_app - 1"
  by (simp add: ofApp_keyPressed_def key_values recording_app_def)

text \<open>
  C8, as the code has it. Pressing \<^verbatim>\<open>']'\<close> adds one to \<^verbatim>\<open>trainingClassLabel\<close> in
  \<^verbatim>\<open>unsigned int\<close> arithmetic: the number grows by one except at the largest value
  \<open>2 ^ 32 - 1\<close>, where it wraps to 0. Pressing \<^verbatim>\<open>'['\<close> takes one off only when the label is
  greater than 1; at 0 and at 1 the label stays as it is.
\<close>

theorem bracket_keys_step_label:
  "trainingClassLabel (ofApp_keyPressed G (key CHR '']'') s) = trainingClassLabel s + 1
   \<and> unat (trainingClassLabel (ofApp_keyPressed G (key CHR '']'') s)) =
       (if unat (trainingClassLabel s) = 2 ^ 32 - 1 then 0 else unat (trainingClassLabel s) + 1)
   \<and> trainingClassLabel (ofApp_keyPressed G (key CHR ''['') s) =
       (if 1 < trainingClassLabel s then trainingClassLabel s - 1 else trainingClassLabel s)
   \<and> unat (trainingClassLabel (ofApp_keyPressed G (key CHR ''['') s)) =
       (if 1 < unat (trainingClassLabel s) then unat (trainingClassLabel s) - 1
        else unat (trainingClassLabel s))"
proof -
  let ?l = "trainingClassLabel s"
  have inc: "trainingClassLabel (ofApp_keyPressed G (key CHR '']'') s) = ?l + 1"
    by (simp add: ofApp_keyPressed_def key_values)
  have dec: "trainingClassLabel (ofApp_keyPressed G (key CHR ''['') s) =
      (if 1 < ?l then ?l - 1 else ?l)"
    by (simp add: ofApp_keyPressed_def key_values)
  have bound: "unat ?l < 2 ^ 32"
    using unsigned_less [of ?l, where 'a = nat] by simp
  have "unat (?l + 1) = (unat ?l + 1) mod 2 ^ 32"
    by (simp add: unat_word_ariths)
  with bound have uinc: "unat (?l + 1) = (if unat ?l = 2 ^ 32 - 1 then 0 else unat ?l + 1)"
    by (auto simp: mod_Suc)
  have lt: "1 < ?l \<longleftrightarrow> 1 < unat ?l"
    by (simp add: word_less_nat_alt)
  have udec: "1 < ?l \<Longrightarrow> unat (?l - 1) = unat ?l - 1"
    by (simp add: unat_sub word_le_nat_alt word_less_nat_alt)
  from inc dec uinc lt udec show ?thesis
    by simp
qed

text \<open>
  C5. When a recording is running and \<^verbatim>\<open>'r'\<close> is pressed, the recording stops, the
  buffered timeseries is handed to \<^verbatim>\<open>trainingData.addSample\<close> once, with the current
  \<^verbatim>\<open>trainingClassLabel\<close> as its class label, and the buffer is empty afterwards, whatever
  the buffer and the label are; the label is left as it was. With the dataset of the
  specification, the dataset afterwards is the dataset before followed by exactly one new
  example, the pair of that label and that timeseries.
\<close>

theorem stop_recording_adds_example:
  "(recording s \<longrightarrow>
      trainingData (ofApp_keyPressed G (key CHR ''r'') s) =
        addSample G (trainingClassLabel s) (timeseries s) (trainingData s)
      \<and> timeseries (ofApp_keyPressed G (key CHR ''r'') s) = []
      \<and> \<not> recording (ofApp_keyPressed G (key CHR ''r'') s)
      \<and> trainingClassLabel (ofApp_keyPressed G (key CHR ''r'') s) = trainingClassLabel s)
   \<and> (recording t \<longrightarrow>
        trainingData (ofApp_keyPressed (grt_spec E) (key CHR ''r'') t) =
          trainingData t @ [(trainingClassLabel t, timeseries t)]
        \<and> timeseries (ofApp_keyPressed (grt_spec E) (key CHR ''r'') t) = [])"
  by (simp add: ofApp_keyPressed_def key_values Let_def grt_spec_def spec_addSample_def)

theorem stop_recording_adds_example_witness:
  "recording recording_app
   \<and> trainingData (ofApp_keyPressed (grt_spec offline) (key CHR ''r'') recording_app) =
       [(1, [[3, 4], [5, 6]])]
   \<and> timeseries (ofApp_keyPressed (grt_spec offline) (key CHR ''r'') recording_app) = []"
proof -
  have r: "recording recording_app"
    by (simp add: recording_app_def)
  have v: "trainingClassLabel recording_app = 1" "timeseries recording_app = [[3, 4], [5, 6]]"
    "trainingData recording_app = []"
    by (simp_all add: recording_app_def)
  from stop_recording_adds_example [of recording_app "grt_spec offline" recording_app offline] r
  have "trainingData (ofApp_keyPressed (grt_spec offline) (key CHR ''r'') recording_app) =
          trainingData recording_app @ [(trainingClassLabel recording_app, timeseries recording_app)]
        \<and> timeseries (ofApp_keyPressed (grt_spec offline) (key CHR ''r'') recording_app) = []"
    by blast
  with r v show ?thesis
    by simp
qed

lemma record_under_label_zero:
  "trainingData
     (run G (ofApp_setup G s)
        [Key (key CHR ''0''), Key (key CHR ''r''), Mouse x y, Frame, Key (key CHR ''r'')]) =
   addSample G 0 (timeseries s @ [[real_of_int x, real_of_int y]])
     (setNumDimensions G 2 (trainingData s))"
  by (simp add: run_def ofApp_keyPressed_def ofApp_update_def ofApp_setup_def currentSample_def
      key_values Let_def)

text \<open>
  C10. Pressing \<^verbatim>\<open>'0'\<close> sets the training class label to 0, the label reserved for the
  null gesture, and nothing in the control surface stops a recording from being closed under
  that label: after \<^verbatim>\<open>setup\<close>, the keys \<^verbatim>\<open>'0'\<close>, \<^verbatim>\<open>'r'\<close>, one frame with the mouse at
  \<open>(x, y)\<close> and \<^verbatim>\<open>'r'\<close> again hand the recorded timeseries to \<^verbatim>\<open>addSample\<close> with class
  label 0. With the dataset of the specification, an example labelled 0 is then the last
  example of the training dataset.
\<close>

theorem zero_label_example_recorded:
  "trainingClassLabel (ofApp_keyPressed G (key CHR ''0'') s) = 0
   \<and> trainingData
       (run G (ofApp_setup G s)
          [Key (key CHR ''0''), Key (key CHR ''r''), Mouse x y, Frame, Key (key CHR ''r'')]) =
     addSample G 0 (timeseries s @ [[real_of_int x, real_of_int y]])
       (setNumDimensions G 2 (trainingData s))
   \<and> trainingData
       (run (grt_spec E) (ofApp_setup (grt_spec E) t)
          [Key (key CHR ''0''), Key (key CHR ''r''), Mouse x y, Frame, Key (key CHR ''r'')]) =
     trainingData t @ [(0, timeseries t @ [[real_of_int x, real_of_int y]])]"
proof -
  have zero: "trainingClassLabel (ofApp_keyPressed G (key CHR ''0'') s) = 0"
    by (simp add: ofApp_keyPressed_def key_values)
  have "trainingData
       (run (grt_spec E) (ofApp_setup (grt_spec E) t)
          [Key (key CHR ''0''), Key (key CHR ''r''), Mouse x y, Frame, Key (key CHR ''r'')]) =
     trainingData t @ [(0, timeseries t @ [[real_of_int x, real_of_int y]])]"
    unfolding record_under_label_zero
    by (simp add: grt_spec_def spec_addSample_def spec_setNumDimensions_def)
  with zero record_under_label_zero [of G s x y] show ?thesis
    by simp
qed

section \<open>Properties that rest on the library\<close>

text \<open>
  C1. When \<^verbatim>\<open>'t'\<close> is pressed and \<^verbatim>\<open>pipeline.train\<close> reports failure, \<^verbatim>\<open>infoText\<close> is the
  warning \<^verbatim>\<open>WARNING: Failed to train pipeline\<close> and the pipeline is whatever the failed call
  of \<^verbatim>\<open>train\<close> left; the application does nothing else to it. With the training of the
  specification, an empty dataset makes \<^verbatim>\<open>train\<close> fail, and after any failed training the
  whole state but \<^verbatim>\<open>infoText\<close> is as before the key press: the pipeline, its trained model
  and the answer of \<^verbatim>\<open>getTrained\<close> are untouched.
\<close>

theorem failed_training_keeps_model:
  "(\<not> fst (train G (trainingData s) (pipeline s)) \<longrightarrow>
      infoText (ofApp_keyPressed G (key CHR ''t'') s) = ''WARNING: Failed to train pipeline''
      \<and> pipeline (ofApp_keyPressed G (key CHR ''t'') s) = snd (train G (trainingData s) (pipeline s)))
   \<and> (trainingData t = [] \<longrightarrow> \<not> fst (train (grt_spec E) (trainingData t) (pipeline t)))
   \<and> (\<not> fst (train (grt_spec E) (trainingData t) (pipeline t)) \<longrightarrow>
        ofApp_keyPressed (grt_spec E) (key CHR ''t'') t =
          t\<lparr> infoText := ''WARNING: Failed to train pipeline'' \<rparr>
        \<and> pipeline (ofApp_keyPressed (grt_spec E) (key CHR ''t'') t) = pipeline t
        \<and> getTrained (grt_spec E) (pipeline (ofApp_keyPressed (grt_spec E) (key CHR ''t'') t))
            = getTrained (grt_spec E) (pipeline t))"
proof -
  have app: "infoText (ofApp_keyPressed G (key CHR ''t'') s) = ''WARNING: Failed to train pipeline''
      \<and> pipeline (ofApp_keyPressed G (key CHR ''t'') s) = snd (train G (trainingData s) (pipeline s))"
    if "\<not> fst (train G (trainingData s) (pipeline s))"
    using that by (cases "train G (trainingData s) (pipeline s)")
      (simp add: ofApp_keyPressed_def key_values)
  have empty: "\<not> fst (train (grt_spec E) (trainingData t) (pipeline t))" if "trainingData t = []"
    using that by (simp add: grt_spec_def spec_train_def)
  have same: "snd (spec_train E d p) = p" if "\<not> fst (spec_train E d p)" for d p
    using that by (auto simp: spec_train_def split: if_splits option.splits)
  have lib: "ofApp_keyPressed (grt_spec E) (key CHR ''t'') t =
      t\<lparr> infoText := ''WARNING: Failed to train pipeline'' \<rparr>"
    if f: "\<not> fst (train (grt_spec E) (trainingData t) (pipeline t))"
  proof -
    from f have f': "\<not> fst (spec_train E (trainingData t) (pipeline t))"
      by (simp add: grt_spec_def)
    obtain ok p where tr: "spec_train E (trainingData t) (pipeline t) = (ok, p)"
      by (cases "spec_train E (trainingData t) (pipeline t)")
    with f' same [OF f'] have "ok = False" "p = pipeline t"
      by simp_all
    with tr show ?thesis
      by (simp add: ofApp_keyPressed_def key_values grt_spec_def)
  qed
  from app empty lib show ?thesis
    by simp
qed

theorem failed_training_keeps_model_witness:
  "trainingData recording_app = []
   \<and> \<not> fst (train (grt_spec offline) (trainingData recording_app) (pipeline recording_app))
   \<and> infoText (ofApp_keyPressed (grt_spec offline) (key CHR ''t'') recording_app) =
       ''WARNING: Failed to train pipeline''
   \<and> pipeline (ofApp_keyPressed (grt_spec offline) (key CHR ''t'') recording_app) = trained_pipeline
   \<and> getTrained (grt_spec offline)
       (pipeline (ofApp_keyPressed (grt_spec offline) (key CHR ''t'') recording_app))"
proof -
  have e: "trainingData recording_app = []"
    by (simp add: recording_app_def)
  have t: "getTrained (grt_spec offline) (pipeline recording_app)"
    by (simp add: recording_app_def trained_pipeline_def grt_spec_def spec_getTrained_def)
  have p: "pipeline recording_app = trained_pipeline"
    by (simp add: recording_app_def)
  from failed_training_keeps_model [of "grt_spec offline" recording_app recording_app offline] e t p
  show ?thesis
    by simp
qed

text \<open>
  C9. When \<^verbatim>\<open>'l'\<close> is pressed and \<^verbatim>\<open>loadDatasetFromFile\<close> reports failure, \<^verbatim>\<open>infoText\<close> is
  the warning \<^verbatim>\<open>WARNING: Failed to load training data from file\<close>; when \<^verbatim>\<open>'s'\<close> is pressed
  and \<^verbatim>\<open>saveDatasetToFile\<close> reports failure, \<^verbatim>\<open>infoText\<close> is the warning
  \<^verbatim>\<open>WARNING: Failed to save training data to file\<close> and the dataset in memory is as before.
  With the loading of the specification, after a failed load the whole state but
  \<^verbatim>\<open>infoText\<close> is as before the key press: the dataset in memory is retained.
\<close>

theorem failed_load_and_save_reported:
  "(\<not> fst (loadDatasetFromFile G ''TrainingData.txt'' (files s) (trainingData s)) \<longrightarrow>
      infoText (ofApp_keyPressed G (key CHR ''l'') s) =
        ''WARNING: Failed to load training data from file'')
   \<and> (\<not> fst (saveDatasetToFile G ''TrainingData.txt'' (trainingData s) (files s)) \<longrightarrow>
      infoText (ofApp_keyPressed G (key CHR ''s'') s) =
        ''WARNING: Failed to save training data to file''
      \<and> trainingData (ofApp_keyPressed G (key CHR ''s'') s) = trainingData s)
   \<and> (\<not> fst (loadDatasetFromFile (grt_spec E) ''TrainingData.txt'' (files t) (trainingData t)) \<longrightarrow>
      ofApp_keyPressed (grt_spec E) (key CHR ''l'') t =
        t\<lparr> infoText := ''WARNING: Failed to load training data from file'' \<rparr>
      \<and> trainingData (ofApp_keyPressed (grt_spec E) (key CHR ''l'') t) = trainingData t)"
proof -
  have load: "infoText (ofApp_keyPressed G (key CHR ''l'') s) =
        ''WARNING: Failed to load training data from file''"
    if "\<not> fst (loadDatasetFromFile G ''TrainingData.txt'' (files s) (trainingData s))"
    using that
    by (cases "loadDatasetFromFile G ''TrainingData.txt'' (files s) (trainingData s)")
      (simp add: ofApp_keyPressed_def key_values)
  have save: "infoText (ofApp_keyPressed G (key CHR ''s'') s) =
        ''WARNING: Failed to save training data to file''
      \<and> trainingData (ofApp_keyPressed G (key CHR ''s'') s) = trainingData s"
    if "\<not> fst (saveDatasetToFile G ''TrainingData.txt'' (trainingData s) (files s))"
    using that
    by (cases "saveDatasetToFile G ''TrainingData.txt'' (trainingData s) (files s)")
      (simp add: ofApp_keyPressed_def key_values)
  have keep: "ofApp_keyPressed (grt_spec E) (key CHR ''l'') t =
        t\<lparr> infoText := ''WARNING: Failed to load training data from file'' \<rparr>"
    if "\<not> fst (loadDatasetFromFile (grt_spec E) ''TrainingData.txt'' (files t) (trainingData t))"
    using that
    by (cases "readDataset E ''TrainingData.txt'' (files t)")
      (simp_all add: ofApp_keyPressed_def key_values grt_spec_def spec_loadDatasetFromFile_def)
  from load save keep show ?thesis
    by simp
qed

theorem failed_load_and_save_reported_witness:
  "\<not> fst (loadDatasetFromFile (grt_spec disk_env) ''TrainingData.txt''
          (files (loaded_app\<lparr> files := broken_disk \<rparr>))
          (trainingData (loaded_app\<lparr> files := broken_disk \<rparr>)))
   \<and> \<not> fst (saveDatasetToFile (grt_spec disk_env) ''TrainingData.txt''
          (trainingData (loaded_app\<lparr> files := broken_disk \<rparr>))
          (files (loaded_app\<lparr> files := broken_disk \<rparr>)))
   \<and> infoText (ofApp_keyPressed (grt_spec disk_env) (key CHR ''l'')
         (loaded_app\<lparr> files := broken_disk \<rparr>)) =
       ''WARNING: Failed to load training data from file''
   \<and> trainingData (ofApp_keyPressed (grt_spec disk_env) (key CHR ''l'')
         (loaded_app\<lparr> files := broken_disk \<rparr>)) =
       [(2, [[9, 9], [8, 7]]), (1, [[3, 4], [5, 6]])]
   \<and> infoText (ofApp_keyPressed (grt_spec disk_env) (key CHR ''s'')
         (loaded_app\<lparr> files := broken_disk \<rparr>)) =
       ''WARNING: Failed to save training data to file''"
proof -
  let ?a = "loaded_app\<lparr> files := broken_disk \<rparr>"
  have l: "\<not> fst (loadDatasetFromFile (grt_spec disk_env) ''TrainingData.txt'' (files ?a)
          (trainingData ?a))"
    by (simp add: grt_spec_def disk_env_def on_disk_def spec_loadDatasetFromFile_def
        spec_readDataset_def broken_disk_def)
  have w: "\<not> fst (saveDatasetToFile (grt_spec disk_env) ''TrainingData.txt''
          (trainingData ?a) (files ?a))"
    by (simp add: grt_spec_def disk_env_def on_disk_def spec_saveDatasetToFile_def
        spec_writeDataset_def broken_disk_def)
  have d: "trainingData ?a = [(2, [[9, 9], [8, 7]]), (1, [[3, 4], [5, 6]])]"
    by (simp add: loaded_app_def)
  from failed_load_and_save_reported [of "grt_spec disk_env" ?a disk_env ?a] l w
  have "infoText (ofApp_keyPressed (grt_spec disk_env) (key CHR ''l'') ?a) =
          ''WARNING: Failed to load training data from file''
        \<and> infoText (ofApp_keyPressed (grt_spec disk_env) (key CHR ''s'') ?a) =
          ''WARNING: Failed to save training data to file''
        \<and> trainingData (ofApp_keyPressed (grt_spec disk_env) (key CHR ''l'') ?a) = trainingData ?a"
    by blast
  with l w d show ?thesis
    by simp
qed

subsection \<open>Saving and loading\<close>

lemma key_s_effect:
  "files (ofApp_keyPressed G (key CHR ''s'') s) =
     snd (saveDatasetToFile G ''TrainingData.txt'' (trainingData s) (files s))"
  "trainingData (ofApp_keyPressed G (key CHR ''s'') s) = trainingData s"
  by (simp_all add: ofApp_keyPressed_def key_values Let_def split: prod.split bool.split)

lemma key_l_effect:
  "trainingData (ofApp_keyPressed G (key CHR ''l'') s) =
     snd (loadDatasetFromFile G ''TrainingData.txt'' (files s) (trainingData s))"
  by (simp add: ofApp_keyPressed_def key_values Let_def split: prod.split bool.split)

lemma key_c_effect:
  "files (ofApp_keyPressed G (key CHR ''c'') s) = files s"
  "trainingData (ofApp_keyPressed G (key CHR ''c'') s) = clearData G (trainingData s)"
  by (simp_all add: ofApp_keyPressed_def key_values)

lemma save_then_load:
  "trainingData (run G s [Key (key CHR ''s''), Key (key CHR ''l'')]) =
     snd (loadDatasetFromFile G ''TrainingData.txt''
            (snd (saveDatasetToFile G ''TrainingData.txt'' (trainingData s) (files s)))
            (trainingData s))"
  by (simp add: run_def key_l_effect key_s_effect)

lemma save_clear_load:
  "trainingData (run G s [Key (key CHR ''s''), Key (key CHR ''c''), Key (key CHR ''l'')]) =
     snd (loadDatasetFromFile G ''TrainingData.txt''
            (snd (saveDatasetToFile G ''TrainingData.txt'' (trainingData s) (files s)))
            (clearData G (trainingData s)))"
  by (simp add: run_def key_l_effect key_s_effect key_c_effect)

lemma read_after_write:
  "fst (saveDatasetToFile (grt_spec (on_disk E)) name d f) \<Longrightarrow>
   loadDatasetFromFile (grt_spec (on_disk E)) name
     (snd (saveDatasetToFile (grt_spec (on_disk E)) name d f)) d' = (True, d)"
  by (auto simp: grt_spec_def on_disk_def spec_saveDatasetToFile_def spec_loadDatasetFromFile_def
      spec_writeDataset_def spec_readDataset_def split: if_splits)

text \<open>
  C3. Pressing \<^verbatim>\<open>'s'\<close> and then \<^verbatim>\<open>'l'\<close> saves the dataset in memory under the name
  \<^verbatim>\<open>TrainingData.txt\<close> and loads from the same name what the save left on the file system,
  whatever the library is. With the file system and the format of the specification, when
  the save reports success the dataset in memory afterwards is the dataset before: the same
  examples in the same order, each with its label and its samples. It is read back from the
  file and not merely kept in memory: the load of the written file succeeds with that
  dataset whatever is in memory at the time, also after \<^verbatim>\<open>'c'\<close> has cleared the dataset
  between the two keys.
\<close>

theorem save_then_load_round_trip:
  "trainingData (run G s [Key (key CHR ''s''), Key (key CHR ''l'')]) =
     snd (loadDatasetFromFile G ''TrainingData.txt''
            (snd (saveDatasetToFile G ''TrainingData.txt'' (trainingData s) (files s)))
            (trainingData s))
   \<and> (fst (saveDatasetToFile (grt_spec (on_disk E)) ''TrainingData.txt'' (trainingData t) (files t))
        \<longrightarrow> trainingData (run (grt_spec (on_disk E)) t [Key (key CHR ''s''), Key (key CHR ''l'')])
              = trainingData t
            \<and> trainingData
                (run (grt_spec (on_disk E)) t
                   [Key (key CHR ''s''), Key (key CHR ''c''), Key (key CHR ''l'')])
              = trainingData t
            \<and> loadDatasetFromFile (grt_spec (on_disk E)) ''TrainingData.txt''
                (files (ofApp_keyPressed (grt_spec (on_disk E)) (key CHR ''s'') t)) d'
              = (True, trainingData t))"
proof -
  let ?G = "grt_spec (on_disk E)"
  let ?f = "snd (saveDatasetToFile ?G ''TrainingData.txt'' (trainingData t) (files t))"
  have files: "files (ofApp_keyPressed ?G (key CHR ''s'') t) = ?f"
    by (rule key_s_effect)
  have rt: "trainingData (run ?G t [Key (key CHR ''s''), Key (key CHR ''l'')]) = trainingData t
          \<and> trainingData (run ?G t [Key (key CHR ''s''), Key (key CHR ''c''), Key (key CHR ''l'')])
              = trainingData t
          \<and> loadDatasetFromFile ?G ''TrainingData.txt''
                (files (ofApp_keyPressed ?G (key CHR ''s'') t)) d' = (True, trainingData t)"
    if ok: "fst (saveDatasetToFile ?G ''TrainingData.txt'' (trainingData t) (files t))"
    unfolding save_then_load save_clear_load files
    by (simp add: read_after_write [OF ok])
  from save_then_load [of G s] rt show ?thesis
    by blast
qed

theorem save_then_load_round_trip_witness:
  "fst (saveDatasetToFile (grt_spec disk_env) ''TrainingData.txt'' (trainingData loaded_app)
          (files loaded_app))
   \<and> loadDatasetFromFile (grt_spec disk_env) ''TrainingData.txt'' (files loaded_app) [] =
       (True, [(1, [[0, 0]])])
   \<and> trainingData (run (grt_spec disk_env) loaded_app [Key (key CHR ''s''), Key (key CHR ''l'')])
       = [(2, [[9, 9], [8, 7]]), (1, [[3, 4], [5, 6]])]
   \<and> trainingData
        (run (grt_spec disk_env) loaded_app
           [Key (key CHR ''s''), Key (key CHR ''c''), Key (key CHR ''l'')])
       = [(2, [[9, 9], [8, 7]]), (1, [[3, 4], [5, 6]])]"
proof -
  let ?base = "\<lparr> fit = (\<lambda>cfg d. None),
         cost = (\<lambda>a b. \<bar>real (length a) - real (length b)\<bar>),
         readDataset = (\<lambda>name f. None),
         writeDataset = (\<lambda>name d f. (False, f)) \<rparr> :: disk env"
  have env: "disk_env = on_disk ?base"
    by (simp add: disk_env_def)
  have d: "trainingData loaded_app = [(2, [[9, 9], [8, 7]]), (1, [[3, 4], [5, 6]])]"
    by (simp add: loaded_app_def)
  have ok: "fst (saveDatasetToFile (grt_spec disk_env) ''TrainingData.txt''
          (trainingData loaded_app) (files loaded_app))"
    by (simp add: grt_spec_def disk_env_def on_disk_def spec_saveDatasetToFile_def
        spec_writeDataset_def loaded_app_def stale_disk_def)
  have stale: "loadDatasetFromFile (grt_spec disk_env) ''TrainingData.txt'' (files loaded_app) [] =
       (True, [(1, [[0, 0]])])"
    by (simp add: grt_spec_def disk_env_def on_disk_def spec_loadDatasetFromFile_def
        spec_readDataset_def loaded_app_def stale_disk_def)
  from save_then_load_round_trip [of "grt_spec disk_env" loaded_app ?base loaded_app] ok
  have "trainingData (run (grt_spec disk_env) loaded_app [Key (key CHR ''s''), Key (key CHR ''l'')])
          = trainingData loaded_app
        \<and> trainingData (run (grt_spec disk_env) loaded_app
             [Key (key CHR ''s''), Key (key CHR ''c''), Key (key CHR ''l'')])
          = trainingData loaded_app"
    unfolding env by blast
  with ok stale d show ?thesis
    by simp
qed

subsection \<open>The nearest template\<close>

lemma nearest_Cons: "nearest c t (x # xs) = nearest c (if c x < c t then x else t) xs"
  by (simp add: nearest_def)

lemma nearest_mem: "nearest c t ts \<in> set (t # ts)"
proof (induction ts arbitrary: t)
  case Nil
  show ?case by (simp add: nearest_def)
next
  case (Cons x xs)
  from Cons.IH [of "if c x < c t then x else t"] show ?case
    by (auto simp: nearest_Cons split: if_splits)
qed

lemma nearest_le_start: "c (nearest c t ts) \<le> c t"
proof (induction ts arbitrary: t)
  case Nil
  show ?case by (simp add: nearest_def)
next
  case (Cons x xs)
  from Cons.IH [of "if c x < c t then x else t"] show ?case
    by (auto simp: nearest_Cons split: if_splits)
qed

lemma nearest_least: "u \<in> set (t # ts) \<Longrightarrow> c (nearest c t ts) \<le> c u"
proof (induction ts arbitrary: t)
  case Nil
  then show ?case by (simp add: nearest_def)
next
  case (Cons x xs)
  let ?b = "if c x < c t then x else t"
  have start: "c (nearest c ?b xs) \<le> c ?b"
    by (rule nearest_le_start)
  from Cons.prems consider "u = t" | "u = x" | "u \<in> set xs"
    by auto
  then show ?case
  proof cases
    case 1
    with start show ?thesis by (auto simp: nearest_Cons split: if_splits)
  next
    case 2
    with start show ?thesis by (auto simp: nearest_Cons split: if_splits)
  next
    case 3
    then have "u \<in> set (?b # xs)" by simp
    from Cons.IH [OF this] show ?thesis by (simp add: nearest_Cons)
  qed
qed

text \<open>
  C4. \<^verbatim>\<open>setup\<close> hands the pipeline a classifier with null rejection enabled. With the
  prediction of the specification: when null rejection is enabled and the DTW cost of the
  input timeseries against every class template exceeds that template's threshold, the
  predicted label is 0; when null rejection is disabled, the predicted label is the class
  label of a template whose cost is the least of all, however large that cost is. The label
  \<^verbatim>\<open>update\<close> leaves in a trained pipeline is the one predicted for the input buffer with
  the current mouse sample appended.
\<close>

theorem null_rejection:
  "classifier (pipeline (ofApp_setup (grt_spec E) s)) = Some configured_dtw
   \<and> useNullRejection configured_dtw
   \<and> (ts \<noteq> [] \<and> useNullRejection cfg \<and> (\<forall>t \<in> set ts. threshold t < cost E (series t) x)
        \<longrightarrow> classify E cfg ts x = Some 0)
   \<and> (ts \<noteq> [] \<and> \<not> useNullRejection cfg
        \<longrightarrow> (\<exists>t \<in> set ts. classify E cfg ts x = Some (classLabel t)
               \<and> (\<forall>u \<in> set ts. cost E (series t) x \<le> cost E (series u) x)))
   \<and> (classifier (pipeline a) = Some cfg \<and> model (pipeline a) = Some ts \<and> ts \<noteq> []
        \<longrightarrow> Some (predictedClassLabel (pipeline (ofApp_update (grt_spec E) a))) =
              classify E cfg ts (inputBuffer (pipeline a) @ [currentSample a]))"
proof -
  have cfg: "classifier (pipeline (ofApp_setup (grt_spec E) s)) = Some configured_dtw"
    by (simp add: ofApp_setup_def grt_spec_def spec_setClassifier_def)
  have on: "useNullRejection configured_dtw"
    by (simp add: configured_dtw_def)
  have rej: "classify E cfg ts x = Some 0"
    if "ts \<noteq> []" "useNullRejection cfg" "\<forall>t \<in> set ts. threshold t < cost E (series t) x"
  proof -
    from that(1) obtain t rest where ts: "ts = t # rest"
      by (cases ts) auto
    let ?b = "nearest (\<lambda>u. cost E (series u) x) t rest"
    have "?b \<in> set ts"
      unfolding ts by (rule nearest_mem)
    with that(3) have "threshold ?b < cost E (series ?b) x"
      by blast
    with that(2) show ?thesis
      by (simp add: classify_def ts Let_def)
  qed
  have near: "\<exists>t \<in> set ts. classify E cfg ts x = Some (classLabel t)
               \<and> (\<forall>u \<in> set ts. cost E (series t) x \<le> cost E (series u) x)"
    if "ts \<noteq> []" "\<not> useNullRejection cfg"
  proof -
    from that(1) obtain t rest where ts: "ts = t # rest"
      by (cases ts) auto
    let ?b = "nearest (\<lambda>u. cost E (series u) x) t rest"
    have mem: "?b \<in> set ts"
      unfolding ts by (rule nearest_mem)
    have least: "\<forall>u \<in> set ts. cost E (series ?b) x \<le> cost E (series u) x"
      unfolding ts using nearest_least [of _ t rest "\<lambda>u. cost E (series u) x"] by blast
    from that(2) have "classify E cfg ts x = Some (classLabel ?b)"
      by (simp add: classify_def ts Let_def)
    with mem least show ?thesis
      by blast
  qed
  have upd: "Some (predictedClassLabel (pipeline (ofApp_update (grt_spec E) a))) =
              classify E cfg ts (inputBuffer (pipeline a) @ [currentSample a])"
    if "classifier (pipeline a) = Some cfg" "model (pipeline a) = Some ts" "ts \<noteq> []"
  proof -
    from that(3) obtain l where l: "classify E cfg ts (inputBuffer (pipeline a) @ [currentSample a]) = Some l"
      by (cases ts) (auto simp: classify_def Let_def)
    from that(1,2) l show ?thesis
      by (simp add: ofApp_update_def Let_def grt_spec_def spec_getTrained_def spec_predict_def)
  qed
  from cfg on rej near upd show ?thesis
    by blast
qed

theorem null_rejection_witness:
  "[line_template, hook_template] \<noteq> []
   \<and> useNullRejection configured_dtw
   \<and> threshold line_template
         < cost offline (series line_template) [[0, 0], [0, 1], [0, 2], [0, 3], [0, 4], [0, 5]]
   \<and> threshold hook_template
         < cost offline (series hook_template) [[0, 0], [0, 1], [0, 2], [0, 3], [0, 4], [0, 5]]
   \<and> classify offline configured_dtw [line_template, hook_template]
         [[0, 0], [0, 1], [0, 2], [0, 3], [0, 4], [0, 5]] = Some 0
   \<and> \<not> useNullRejection (configured_dtw\<lparr> useNullRejection := False \<rparr>)
   \<and> classify offline (configured_dtw\<lparr> useNullRejection := False \<rparr>) [line_template, hook_template]
         [[0, 0], [0, 1], [0, 2], [0, 3], [0, 4], [0, 5]] = Some 2
   \<and> classifier (pipeline recording_app) = Some configured_dtw
   \<and> model (pipeline recording_app) = Some [line_template, hook_template]
   \<and> predictedClassLabel (pipeline (ofApp_update (grt_spec offline) recording_app)) = 1"
proof -
  let ?ts = "[line_template, hook_template]"
  let ?x = "[[0, 0], [0, 1], [0, 2], [0, 3], [0, 4], [0, 5]] :: timeseries"
  let ?off = "configured_dtw\<lparr> useNullRejection := False \<rparr>"
  have ne: "?ts \<noteq> []"
    by simp
  have on: "useNullRejection configured_dtw" and off: "\<not> useNullRejection ?off"
    by (simp_all add: configured_dtw_def)
  have far: "\<forall>t \<in> set ?ts. threshold t < cost offline (series t) ?x"
    by (simp add: offline_def line_template_def hook_template_def)
  have c: "classifier (pipeline recording_app) = Some configured_dtw"
    and m: "model (pipeline recording_app) = Some ?ts"
    by (simp_all add: recording_app_def trained_pipeline_def)
  from null_rejection [of offline recording_app ?ts configured_dtw ?x recording_app] ne on far
  have r0: "classify offline configured_dtw ?ts ?x = Some 0"
    by blast
  from null_rejection [of offline recording_app ?ts ?off ?x recording_app] ne off
  obtain t where t: "t \<in> set ?ts" "classify offline ?off ?ts ?x = Some (classLabel t)"
    "\<forall>u \<in> set ?ts. cost offline (series t) ?x \<le> cost offline (series u) ?x"
    by blast
  from t(3) have "cost offline (series t) ?x \<le> cost offline (series hook_template) ?x"
    by simp
  with t(1) have "t = hook_template"
    by (auto simp: offline_def line_template_def hook_template_def)
  with t(2) have r2: "classify offline ?off ?ts ?x = Some 2"
    by (simp add: hook_template_def)
  from null_rejection [of offline recording_app ?ts configured_dtw ?x recording_app] c m ne
  have "Some (predictedClassLabel (pipeline (ofApp_update (grt_spec offline) recording_app))) =
      classify offline configured_dtw ?ts (inputBuffer (pipeline recording_app) @ [currentSample recording_app])"
    by blast
  also have "\<dots> = Some 1"
    by (simp add: classify_def nearest_def offline_def line_template_def hook_template_def
        configured_dtw_def recording_app_def trained_pipeline_def currentSample_def Let_def)
  finally have r1: "predictedClassLabel (pipeline (ofApp_update (grt_spec offline) recording_app)) = 1"
    by simp
  from far have far': "threshold line_template < cost offline (series line_template) ?x"
    "threshold hook_template < cost offline (series hook_template) ?x"
    by simp_all
  from ne on far' r0 off r2 c m r1 show ?thesis
    by blast
qed

end
